theory Spec2Isabelle
  imports Main
begin

section \<open>Exceptions\<close>

text \<open>
  The exceptions the modelled code raises, as values.  The nine named classes and
  \<open>MonzoAPIError\<close> are those of \<^verbatim>\<open>libmonzo/exceptions.py\<close>; \<open>PyException\<close> is Python's
  built-in \<^verbatim>\<open>Exception\<close>; \<open>KeyError\<close>, \<open>IndexError\<close>, \<open>AttributeError\<close> \<open>ValueError\<close>
  and \<open>TypeError\<close> are the built-in errors of a failed dictionary lookup, of an index out
  of range, of reading an attribute that was never assigned, of a library call that
  rejects its argument, and of subscripting a value that is no dictionary.  Each carries its message (for \<open>KeyError\<close>: the missing key).
\<close>

datatype error =
    PyException string
  | KeyError string
  | IndexError string
  | AttributeError string
  | ValueError string
  | TypeError string
  | MonzoAPIError string
  | MonzoBadRequestError string
  | MonzoUnauthorizedError string
  | MonzoForbiddenError string
  | MonzoNotFoundError string
  | MonzoMethodNotAllowedError string
  | MonzoNotAcceptableError string
  | MonzoTooManyRequestsError string
  | MonzoInternalServerError string
  | MonzoGatewayTimeoutError string

text \<open>A name between single quotes, as Python's messages print it.\<close>

definition quoted :: "string \<Rightarrow> string" where
  "quoted name = CHR 0x27 # name @ [CHR 0x27]"

section \<open>utilities.py: random strings\<close>

definition SECRETS_ALPHABET :: string where
  "SECRETS_ALPHABET = ''ABCDEFGHIJKLMNPQRSTUVWXYZabcdefghjkmnpqrstuvwxyz23456789''"

text \<open>
  \<^verbatim>\<open>secrets.choice(seq)\<close> returns \<^verbatim>\<open>seq[randbelow(len(seq))]\<close>.  The entropy of the operating
  system is a parameter of the model: \<open>rnd i\<close> is the \<open>i\<close>-th raw number it delivers, and
  \<open>randbelow n\<close> reduces it to the range below \<open>n\<close>.  A function that draws \<open>k\<close> numbers
  returns the entropy source advanced by \<open>k\<close>.
\<close>

type_synonym entropy = "nat \<Rightarrow> nat"

definition secrets_choice :: "nat \<Rightarrow> string \<Rightarrow> char" where
  "secrets_choice r seq = seq ! (r mod length seq)"

text \<open>
  \<^verbatim>\<open>''.join([secrets.choice(_SECRETS_ALPHABET) for _ in range(0, length)])\<close>: the range is
  empty for a length that is not positive.
\<close>

definition random_string :: "int \<Rightarrow> entropy \<Rightarrow> string \<times> entropy" where
  "random_string n rnd =
     (map (\<lambda>i. secrets_choice (rnd i) SECRETS_ALPHABET) [0..<nat n],
      \<lambda>i. rnd (i + nat n))"

section \<open>The URL functions of Python's standard library\<close>

text \<open>
  \<^verbatim>\<open>wait_for_call\<close> calls \<^verbatim>\<open>urllib.parse.urlparse(...).query\<close> and
  \<^verbatim>\<open>urllib.parse.parse_qs\<close>.  Both belong to the interpreter's library, not to the
  repository.  Splitting a URL into its components is a parameter of the model
  (\<open>urlparse_query\<close>: the query component, or the \<open>ValueError\<close> the library raises on a
  malformed network location), and so is the decoding of percent escapes to text
  (\<open>unquote_escapes\<close>).  What \<^verbatim>\<open>parse_qs\<close> does with the query string is modelled below,
  with the library's defaults (fields separated by \<open>&\<close>, blank values dropped, no strict
  parsing).  Interpreters older than 3.9.2 separate the fields at \<open>;\<close> as well; on a
  query string without \<open>;\<close> the result is the same.  A Python string is a list of
  characters.
\<close>

record urllib_parse =
  urlparse_query :: "string \<Rightarrow> error + string"
  unquote_escapes :: "string \<Rightarrow> string"

text \<open>\<^verbatim>\<open>unquote\<close> returns a string without \<open>%\<close> as it is.\<close>

definition unquote :: "urllib_parse \<Rightarrow> string \<Rightarrow> string" where
  "unquote lib s = (if CHR ''%'' \<notin> set s then s else unquote_escapes lib s)"

text \<open>\<^verbatim>\<open>s.replace('+', ' ')\<close>\<close>

definition replace_plus :: "string \<Rightarrow> string" where
  "replace_plus s = map (\<lambda>c. if c = CHR ''+'' then CHR '' '' else c) s"

text \<open>\<^verbatim>\<open>s.split(sep)\<close> for a separator of one character: never an empty list.\<close>

fun split_on :: "char \<Rightarrow> string \<Rightarrow> string list" where
  "split_on sep [] = [[]]"
| "split_on sep (c # cs) =
     (if c = sep then [] # split_on sep cs
      else (case split_on sep cs of
              [] \<Rightarrow> [[c]]
            | w # ws \<Rightarrow> (c # w) # ws))"

text \<open>
  The loop of \<^verbatim>\<open>parse_qsl\<close> over the fields: an empty field is skipped; a field is split
  at its first \<open>=\<close> (\<^verbatim>\<open>name_value.split('=', 1)\<close>) and skipped when it has none; a field
  whose value is empty is dropped; otherwise name and value have \<open>+\<close> replaced by a space
  and are unquoted.
\<close>

fun parse_qsl_fields :: "urllib_parse \<Rightarrow> string list \<Rightarrow> (string \<times> string) list" where
  "parse_qsl_fields lib [] = []"
| "parse_qsl_fields lib (name_value # query_args) =
     (if name_value = [] then parse_qsl_fields lib query_args
      else if CHR ''='' \<notin> set name_value then parse_qsl_fields lib query_args
      else
        (let nv0 = takeWhile (\<lambda>c. c \<noteq> CHR ''='') name_value;
             nv1 = drop 1 (dropWhile (\<lambda>c. c \<noteq> CHR ''='') name_value)
         in if nv1 = [] then parse_qsl_fields lib query_args
            else (unquote lib (replace_plus nv0), unquote lib (replace_plus nv1))
                   # parse_qsl_fields lib query_args))"

definition parse_qsl :: "urllib_parse \<Rightarrow> string \<Rightarrow> (string \<times> string) list" where
  "parse_qsl lib qs = parse_qsl_fields lib (if qs = [] then [] else split_on CHR ''&'' qs)"

text \<open>
  \<^verbatim>\<open>parse_qs\<close> collects the pairs in a dictionary: a name seen before has the value
  appended to its list, a new name starts a list of one value.
\<close>

type_synonym parameters = "string \<rightharpoonup> string list"

fun parse_qs_collect :: "(string \<times> string) list \<Rightarrow> parameters \<Rightarrow> parameters" where
  "parse_qs_collect [] parsed_result = parsed_result"
| "parse_qs_collect ((name, val) # pairs) parsed_result =
     parse_qs_collect pairs
       (case parsed_result name of
          Some vs \<Rightarrow> parsed_result(name \<mapsto> vs @ [val])
        | None \<Rightarrow> parsed_result(name \<mapsto> [val]))"

definition parse_qs :: "urllib_parse \<Rightarrow> string \<Rightarrow> parameters" where
  "parse_qs lib qs = parse_qs_collect (parse_qsl lib qs) Map.empty"

text \<open>
  An instance of the library for evaluating examples.  Its \<open>urlparse_query\<close> follows
  \<^verbatim>\<open>urlsplit\<close> of the interpreter the package declares (CPython 3.7), without the cache
  and without the later check of network locations that are not ASCII.  A scheme is
  split off when the text before the first \<open>:\<close> is \<^verbatim>\<open>http\<close>, or consists of scheme
  characters and is not followed by a port number only.  If the rest starts with \<open>//\<close>, the
  network location runs up to the first of \<open>/\<close>, \<open>?\<close> and \<open>#\<close>, and one that has a
  square bracket without its partner raises \<^verbatim>\<open>ValueError("Invalid IPv6 URL")\<close>.  Then the
  fragment is cut off at the first \<open>#\<close>, and the query is what follows the first \<open>?\<close>.
  Percent escapes are not decoded by this instance; the examples have none.
\<close>

definition scheme_chars :: string where
  "scheme_chars = ''abcdefghijklmnopqrstuvwxyzABCDEFGHIJKLMNOPQRSTUVWXYZ0123456789+-.''"

definition after_scheme :: "string \<Rightarrow> string" where
  "after_scheme url =
     (let i = length (takeWhile (\<lambda>c. c \<noteq> CHR '':'') url)
      in if CHR '':'' \<in> set url \<and> i > 0 then
           (if take i url = ''http'' then drop (i + 1) url
            else if list_all (\<lambda>c. c \<in> set scheme_chars) (take i url) then
              (let rest = drop (i + 1) url
               in if rest = [] \<or> list_ex (\<lambda>c. c \<notin> set ''0123456789'') rest
                  then rest else url)
            else url)
         else url)"

definition query_part :: "string \<Rightarrow> string" where
  "query_part url =
     drop 1 (dropWhile (\<lambda>c. c \<noteq> CHR ''?'') (takeWhile (\<lambda>c. c \<noteq> CHR ''#'') url))"

definition urlsplit_query :: "string \<Rightarrow> error + string" where
  "urlsplit_query url0 =
     (let url = after_scheme url0
      in if take 2 url = ''//'' then
           (let netloc = takeWhile (\<lambda>c. c \<notin> set ''/?#'') (drop 2 url);
                url' = dropWhile (\<lambda>c. c \<notin> set ''/?#'') (drop 2 url)
            in if (CHR ''['' \<in> set netloc \<and> CHR '']'' \<notin> set netloc)
                  \<or> (CHR '']'' \<in> set netloc \<and> CHR ''['' \<notin> set netloc)
               then Inl (ValueError ''Invalid IPv6 URL'')
               else Inr (query_part url'))
         else Inr (query_part url))"

definition std_urllib :: urllib_parse where
  "std_urllib = \<lparr>urlparse_query = urlsplit_query, unquote_escapes = (\<lambda>s. s)\<rparr>"

section \<open>utilities.py: the OAuth helper server\<close>

text \<open>
  \<^verbatim>\<open>OAuthServer.__init__\<close> assigns \<^verbatim>\<open>_cancelled\<close>, \<^verbatim>\<open>_completed\<close> and \<^verbatim>\<open>_path\<close>;
  \<^verbatim>\<open>handler_callback\<close> assigns the attribute \<^verbatim>\<open>path\<close> (without underscore), which is a
  different attribute and does not exist before the first callback: \<open>path s = None\<close> stands
  for the attribute being unset.  The lock is held around every read and write of the
  flags, so each operation below is one atomic step on the record.
\<close>

record oauth_server =
  port :: int
  cancelled :: bool
  completed :: bool
  private_path :: "string option"
  path :: "string option"

definition OAuthServer_init :: "int \<Rightarrow> oauth_server" where
  "OAuthServer_init p =
     \<lparr>port = p, cancelled = False, completed = False, private_path = None, path = None\<rparr>"

definition handler_callback :: "string \<Rightarrow> oauth_server \<Rightarrow> oauth_server" where
  "handler_callback p s = s\<lparr>completed := True, path := Some p\<rparr>"

definition stop :: "oauth_server \<Rightarrow> oauth_server" where
  "stop s = s\<lparr>cancelled := True\<rparr>"

text \<open>
  What can happen while \<^verbatim>\<open>wait_for_call\<close> is inside \<^verbatim>\<open>self.handle_request()\<close>, which
  does not hold the lock: the accept times out (\<open>Timeout\<close>; a request with a method other
  than GET, POST, PUT or DELETE changes as little); a request with one of the four
  methods arrives and its handler calls \<^verbatim>\<open>handler_callback(self.path)\<close> (\<open>Request\<close>); or
  another thread calls \<^verbatim>\<open>stop()\<close> while the accept is still pending (\<open>StopCalled\<close>), after
  which \<^verbatim>\<open>handle_request\<close> goes on waiting.  The environment is a list of such events;
  when it is used up \<^verbatim>\<open>handle_request\<close> has not returned (\<open>None\<close>).
\<close>

datatype event = Timeout | Request string | StopCalled

fun handle_request :: "event list \<Rightarrow> oauth_server \<Rightarrow> (event list \<times> oauth_server) option" where
  "handle_request [] s = None"
| "handle_request (Timeout # evs) s = Some (evs, s)"
| "handle_request (Request p # evs) s = Some (evs, handler_callback p s)"
| "handle_request (StopCalled # evs) s = handle_request evs (stop s)"

lemma handle_request_shorter:
  "handle_request evs s = Some (evs', s') \<Longrightarrow> length evs' < length evs"
proof (induction evs s rule: handle_request.induct)
  case (4 evs s)
  then show ?case by fastforce
qed auto

text \<open>
  The \<^verbatim>\<open>while True\<close> loop of \<^verbatim>\<open>wait_for_call\<close>: under the lock, leave the loop when
  \<^verbatim>\<open>_completed\<close> or \<^verbatim>\<open>_cancelled\<close> is set; otherwise release the lock and handle one
  request.  \<open>None\<close>: the loop has not ended within the given events.
\<close>

function wait_loop :: "event list \<Rightarrow> oauth_server \<Rightarrow> oauth_server option" where
  "wait_loop evs s =
     (if completed s then Some s
      else if cancelled s then Some s
      else (case handle_request evs s of
              None \<Rightarrow> None
            | Some (evs', s') \<Rightarrow> wait_loop evs' s'))"
  by pat_completeness auto
termination
  by (relation "measure (\<lambda>(evs, s). length evs)") (auto dest: handle_request_shorter)

declare wait_loop.simps [simp del]

text \<open>
  The code of \<^verbatim>\<open>wait_for_call\<close> after the loop, under the lock again: \<open>Inr None\<close> is the
  returned \<^verbatim>\<open>None\<close>, \<open>Inr (Some m)\<close> a returned dictionary, \<open>Inl e\<close> a raised exception.
  Reading \<^verbatim>\<open>self.path\<close> before any callback assigned it raises \<open>AttributeError\<close>.
\<close>

definition after_loop :: "urllib_parse \<Rightarrow> oauth_server \<Rightarrow> error + parameters option" where
  "after_loop lib s =
     (if cancelled s then Inr None
      else if completed s then
        (case path s of
           None \<Rightarrow> Inl (AttributeError
                    (quoted ''OAuthServer'' @ '' object has no attribute '' @ quoted ''path''))
         | Some p \<Rightarrow>
             (case urlparse_query lib p of
                Inl e \<Rightarrow> Inl e
              | Inr query \<Rightarrow> Inr (Some (parse_qs lib query))))
      else Inl (PyException ''Call should be cancelled or completed by this point''))"

text \<open>
  \<^verbatim>\<open>wait_for_call\<close>: the loop, then the code after it.  Between the two the lock is free,
  and another thread may call \<^verbatim>\<open>stop()\<close> there (\<open>late_stop\<close>).  The result is \<open>None\<close> when
  the call has not returned within the given events.
\<close>

definition wait_for_call ::
  "urllib_parse \<Rightarrow> event list \<Rightarrow> bool \<Rightarrow> oauth_server
     \<Rightarrow> ((error + parameters option) \<times> oauth_server) option" where
  "wait_for_call lib evs late_stop s =
     (case wait_loop evs s of
        None \<Rightarrow> None
      | Some s1 \<Rightarrow>
          (let s2 = (if late_stop then stop s1 else s1)
           in Some (after_loop lib s2, s2)))"

section \<open>monzo.py: requests, responses and the world around the client\<close>

text \<open>
  Decoded JSON, as \<^verbatim>\<open>response.json()\<close> returns it (numbers: the integers, which is what
  the amounts and balances of the API are).  An object is the list of the items of the
  decoded dictionary, each key once.
\<close>

datatype json =
    JNull
  | JBool bool
  | JInt int
  | JString string
  | JArray "json list"
  | JObject "(string \<times> json) list"

text \<open>
  \<^verbatim>\<open>data[key]\<close> for a string key: a dictionary looks the key up, every other value
  raises \<open>TypeError\<close>.
\<close>

fun subscript :: "json \<Rightarrow> string \<Rightarrow> error + json" where
  "subscript (JObject items) key =
     (case map_of items key of
        None \<Rightarrow> Inl (KeyError key)
      | Some v \<Rightarrow> Inr v)"
| "subscript (JArray xs) key =
     Inl (TypeError ''list indices must be integers or slices, not str'')"
| "subscript (JString x) key = Inl (TypeError ''string indices must be integers'')"
| "subscript (JInt i) key =
     Inl (TypeError (quoted ''int'' @ '' object is not subscriptable''))"
| "subscript (JBool b) key =
     Inl (TypeError (quoted ''bool'' @ '' object is not subscriptable''))"
| "subscript JNull key =
     Inl (TypeError (quoted ''NoneType'' @ '' object is not subscriptable''))"

text \<open>
  A value of the \<^verbatim>\<open>data\<close> dictionary handed to \<^verbatim>\<open>requests\<close>: a string, an integer, or a
  list of strings (which is what \<^verbatim>\<open>parse_qs\<close> yields for a parameter).
\<close>

datatype form_value = FormStr string | FormInt int | FormList "string list"

text \<open>
  A request as the client hands it to \<^verbatim>\<open>requests\<close>.  \<open>bearer\<close> is the token that the
  header \<^verbatim>\<open>'Authorization': f'Bearer {self.access_token}'\<close> formats, \<open>None\<close> for a request
  sent without that header.
\<close>

record http_request =
  http_method :: string
  url :: string
  bearer :: "json option"
  data :: "(string \<times> form_value) list"

record http_response =
  status_code :: int
  text_body :: string
  json_body :: "error + json"

text \<open>
  What lies outside the repository: the library's URL functions, the network behind
  \<^verbatim>\<open>requests\<close> (its answer may depend on the requests sent before, and the call may raise),
  and \<^verbatim>\<open>Pot.from_json\<close> of \<^verbatim>\<open>types.py\<close>, which turns the decoded answer into pots.
\<close>

record 'pot environment =
  urllib :: urllib_parse
  requests :: "http_request list \<Rightarrow> http_request \<Rightarrow> error + http_response"
  Pot_from_json :: "json \<Rightarrow> error + 'pot list"

text \<open>The effects on the outside: the URLs given to the browser and the requests sent.\<close>

record world =
  browser :: "string list"
  sent :: "http_request list"

text \<open>\<^verbatim>\<open>str(n)\<close> of an integer, as the f-strings format it.\<close>

fun str_nat :: "nat \<Rightarrow> string" where
  "str_nat n =
     (if n < 10 then [''0123456789'' ! n]
      else str_nat (n div 10) @ [''0123456789'' ! (n mod 10)])"

declare str_nat.simps [simp del]

definition str_int :: "int \<Rightarrow> string" where
  "str_int i = (if i < 0 then CHR ''-'' # str_nat (nat (- i)) else str_nat (nat i))"

section \<open>monzo.py: the client\<close>

record monzo_client =
  client_id :: string
  owner_id :: string
  client_secret :: string
  access_token :: json
  account_id :: "string option"
  state_token :: string

definition REDIRECT_PORT :: int where
  "REDIRECT_PORT = 36453"

definition REDIRECT_PATH :: string where
  "REDIRECT_PATH = ''monzo_callback''"

definition redirect_uri :: string where
  "redirect_uri = ''http://localhost:'' @ str_int REDIRECT_PORT @ ''/'' @ REDIRECT_PATH"

text \<open>
  Python evaluates the default value of a parameter once, when the \<^verbatim>\<open>def\<close> statement
  runs.  Executing the body of \<^verbatim>\<open>class MonzoClient\<close> therefore calls
  \<^verbatim>\<open>utilities.random_string(20)\<close> twice, for \<^verbatim>\<open>deposit_into_pot\<close> and then for
  \<^verbatim>\<open>withdraw_from_pot\<close>, and stores the two strings with the functions.
\<close>

record monzo_class =
  deposit_dedupe_default :: string
  withdraw_dedupe_default :: string

definition define_MonzoClient :: "entropy \<Rightarrow> monzo_class \<times> entropy" where
  "define_MonzoClient rnd =
     (let (d, rnd1) = random_string 20 rnd;
          (w, rnd2) = random_string 20 rnd1
      in (\<lparr>deposit_dedupe_default = d, withdraw_dedupe_default = w\<rparr>, rnd2))"

definition MonzoClient_init ::
  "string \<Rightarrow> string \<Rightarrow> string \<Rightarrow> entropy \<Rightarrow> monzo_client \<times> entropy" where
  "MonzoClient_init cid oid secret rnd =
     (let (token, rnd1) = random_string 20 rnd
      in (\<lparr>client_id = cid, owner_id = oid, client_secret = secret,
           access_token = JNull, account_id = None, state_token = token\<rparr>, rnd1))"

subsection \<open>_handle_response\<close>

definition error_map :: "(int \<times> (string \<Rightarrow> error)) list" where
  "error_map =
     [(400, MonzoBadRequestError),
      (401, MonzoUnauthorizedError),
      (403, MonzoForbiddenError),
      (404, MonzoNotFoundError),
      (405, MonzoMethodNotAllowedError),
      (406, MonzoNotAcceptableError),
      (429, MonzoTooManyRequestsError),
      (500, MonzoInternalServerError),
      (504, MonzoGatewayTimeoutError)]"

text \<open>\<^verbatim>\<open>f"Error fetching request: ({response.status_code}): {response.text}"\<close>\<close>

definition error_message :: "http_response \<Rightarrow> string" where
  "error_message response =
     ''Error fetching request: ('' @ str_int (status_code response) @ ''): ''
       @ text_body response"

definition handle_response :: "http_response \<Rightarrow> error + http_response" where
  "handle_response response =
     (if status_code response < 200 \<or> status_code response \<ge> 300 then
        (let error_class =
               (case map_of error_map (status_code response) of
                  Some c \<Rightarrow> c
                | None \<Rightarrow> MonzoAPIError)
         in Inl (error_class (error_message response)))
      else Inr response)"

subsection \<open>authenticate\<close>

text \<open>
  \<^verbatim>\<open>authenticate\<close> is modelled in three parts.  \<open>exchange\<close> is its second step (lines 76
  to 97): the POST to the token endpoint with the \<^verbatim>\<open>data\<close> dictionary of
  \<open>token_request\<close>, then \<^verbatim>\<open>response.json()\<close> and the assignment of
  \<^verbatim>\<open>data["access_token"]\<close> to \<^verbatim>\<open>self.access_token\<close>; the answer does not go through
  \<^verbatim>\<open>_handle_response\<close>.  \<open>authenticate_parameters\<close> is what the function does with the
  value returned by \<^verbatim>\<open>server.wait_for_call()\<close> (lines 63 to 74, then the exchange).
  \<open>authenticate\<close> is the whole function.  Each result is the value returned or the
  exception raised, together with the client and the world after the call.  Log
  messages are left out.
\<close>

definition token_request :: "monzo_client \<Rightarrow> string list \<Rightarrow> http_request" where
  "token_request self authorization_code =
     \<lparr>http_method = ''POST'',
      url = ''https://api.monzo.com/oauth2/token'',
      bearer = None,
      data =
        [(''grant_type'', FormStr ''authorization_code''),
         (''client_id'', FormStr (client_id self)),
         (''client_secret'', FormStr (client_secret self)),
         (''redirect_uri'', FormStr redirect_uri),
         (''code'', FormList authorization_code)]\<rparr>"

definition exchange ::
  "'pot environment \<Rightarrow> string list \<Rightarrow> monzo_client \<Rightarrow> world
     \<Rightarrow> (error + bool) \<times> monzo_client \<times> world" where
  "exchange env authorization_code self w =
     (let request = token_request self authorization_code;
          w' = w\<lparr>sent := sent w @ [request]\<rparr>
      in case requests env (sent w) request of
           Inl e \<Rightarrow> (Inl e, self, w')
         | Inr response \<Rightarrow>
             (case json_body response of
                Inl e \<Rightarrow> (Inl e, self, w')
              | Inr data' \<Rightarrow>
                  (case subscript data' ''access_token'' of
                     Inl e \<Rightarrow> (Inl e, self, w')
                   | Inr token \<Rightarrow> (Inr True, self\<lparr>access_token := token\<rparr>, w'))))"

definition authenticate_parameters ::
  "'pot environment \<Rightarrow> parameters option \<Rightarrow> monzo_client \<Rightarrow> world
     \<Rightarrow> (error + bool) \<times> monzo_client \<times> world" where
  "authenticate_parameters env parameters self w =
     (case parameters of
        None \<Rightarrow>
          (Inl (MonzoAPIError
             ''Failed to authenticate correctly. The response parameters were invalid.''),
           self, w)
      | Some ps \<Rightarrow>
          (case ps ''code'' of
             None \<Rightarrow> (Inl (KeyError ''code''), self, w)
           | Some authorization_code \<Rightarrow>
               (case ps ''state'' of
                  None \<Rightarrow> (Inl (KeyError ''state''), self, w)
                | Some state_values \<Rightarrow>
                    if length state_values \<noteq> 1
                    then (Inl (PyException ''Invalid return state''), self, w)
                    else
                      (let state_value = state_values ! 0
                       in if state_token self \<noteq> state_value
                          then (Inl (PyException ''State did not match''), self, w)
                          else exchange env authorization_code self w))))"

text \<open>
  \<^verbatim>\<open>authenticate\<close>: create the server on the redirect port (the port is taken to be
  free), open the browser on the authorization URL, wait for the callback, then go on
  with its parameters.  An exception of \<^verbatim>\<open>wait_for_call\<close> propagates.  \<open>None\<close>: the call
  has not returned within the given events.
\<close>

definition authorization_url :: "monzo_client \<Rightarrow> string" where
  "authorization_url self =
     ''https://auth.monzo.com/''
       @ ''?client_id='' @ client_id self
       @ ''&redirect_uri='' @ redirect_uri
       @ ''&response_type=code''
       @ ''&state='' @ state_token self"

definition authenticate ::
  "'pot environment \<Rightarrow> event list \<Rightarrow> bool \<Rightarrow> monzo_client \<Rightarrow> world
     \<Rightarrow> ((error + bool) \<times> monzo_client \<times> world) option" where
  "authenticate env evs late_stop self w =
     (let server = OAuthServer_init REDIRECT_PORT;
          w1 = w\<lparr>browser := browser w @ [authorization_url self]\<rparr>
      in case wait_for_call (urllib env) evs late_stop server of
           None \<Rightarrow> None
         | Some (Inl e, server') \<Rightarrow> Some (Inl e, self, w1)
         | Some (Inr parameters, server') \<Rightarrow>
             Some (authenticate_parameters env parameters self w1))"

subsection \<open>put, deposit_into_pot and withdraw_from_pot\<close>

definition put ::
  "'pot environment \<Rightarrow> monzo_client \<Rightarrow> string \<Rightarrow> (string \<times> form_value) list \<Rightarrow> world
     \<Rightarrow> (error + http_response) \<times> world" where
  "put env self path' body w =
     (let request =
            \<lparr>http_method = ''PUT'', url = ''https://api.monzo.com/'' @ path',
             bearer = Some (access_token self), data = body\<rparr>;
          w' = w\<lparr>sent := sent w @ [request]\<rparr>
      in case requests env (sent w) request of
           Inl e \<Rightarrow> (Inl e, w')
         | Inr response \<Rightarrow> (handle_response response, w'))"

text \<open>\<^verbatim>\<open>Pot.from_json(response.json())[0]\<close>\<close>

definition first_pot :: "'pot environment \<Rightarrow> http_response \<Rightarrow> error + 'pot" where
  "first_pot env response =
     (case json_body response of
        Inl e \<Rightarrow> Inl e
      | Inr j \<Rightarrow>
          (case Pot_from_json env j of
             Inl e \<Rightarrow> Inl e
           | Inr [] \<Rightarrow> Inl (IndexError ''list index out of range'')
           | Inr (pot # _) \<Rightarrow> Inr pot))"

text \<open>
  The keyword parameter \<^verbatim>\<open>dedupe_id\<close> is \<open>None\<close> when the caller leaves it out; the
  function then takes the default stored at its definition.
\<close>

definition deposit_into_pot ::
  "'pot environment \<Rightarrow> monzo_class \<Rightarrow> monzo_client \<Rightarrow> string \<Rightarrow> string \<Rightarrow> int
     \<Rightarrow> string option \<Rightarrow> world \<Rightarrow> (error + 'pot) \<times> world" where
  "deposit_into_pot env cls self pot_id source_account_id amount dedupe_id w =
     (let dedupe = (case dedupe_id of None \<Rightarrow> deposit_dedupe_default cls | Some d \<Rightarrow> d);
          (r, w') =
            put env self (''pots/'' @ pot_id @ ''/deposit'')
              [(''source_account_id'', FormStr source_account_id),
               (''amount'', FormInt amount),
               (''dedupe_id'', FormStr dedupe)] w
      in case r of
           Inl e \<Rightarrow> (Inl e, w')
         | Inr response \<Rightarrow> (first_pot env response, w'))"

definition withdraw_from_pot ::
  "'pot environment \<Rightarrow> monzo_class \<Rightarrow> monzo_client \<Rightarrow> string \<Rightarrow> string \<Rightarrow> int
     \<Rightarrow> string option \<Rightarrow> world \<Rightarrow> (error + 'pot) \<times> world" where
  "withdraw_from_pot env cls self pot_id destination_account_id amount dedupe_id w =
     (let dedupe = (case dedupe_id of None \<Rightarrow> withdraw_dedupe_default cls | Some d \<Rightarrow> d);
          (r, w') =
            put env self (''pots/'' @ pot_id @ ''/withdraw'')
              [(''destination_account_id'', FormStr destination_account_id),
               (''amount'', FormInt amount),
               (''dedupe_id'', FormStr dedupe)] w
      in case r of
           Inl e \<Rightarrow> (Inl e, w')
         | Inr response \<Rightarrow> (first_pot env response, w'))"

section \<open>Vocabulary of the properties\<close>

text \<open>
  A thread's use of one server: calls of \<^verbatim>\<open>handler_callback\<close>, \<^verbatim>\<open>wait_for_call\<close> (with
  the events that occur while it runs) and \<^verbatim>\<open>stop\<close>, one after the other.  \<open>None\<close>: one
  of the calls of \<^verbatim>\<open>wait_for_call\<close> has not returned.
\<close>

datatype operation = HandlerCallback string | WaitForCall "event list" bool | Stop

fun run :: "urllib_parse \<Rightarrow> operation list \<Rightarrow> oauth_server \<Rightarrow> oauth_server option" where
  "run lib [] s = Some s"
| "run lib (HandlerCallback p # ops) s = run lib ops (handler_callback p s)"
| "run lib (Stop # ops) s = run lib ops (stop s)"
| "run lib (WaitForCall evs late_stop # ops) s =
     (case wait_for_call lib evs late_stop s of
        None \<Rightarrow> None
      | Some (r, s') \<Rightarrow> run lib ops s')"

text \<open>A server whose \<^verbatim>\<open>_completed\<close> flag is set has its \<^verbatim>\<open>path\<close> attribute assigned.\<close>

definition path_recorded :: "oauth_server \<Rightarrow> bool" where
  "path_recorded s = (if completed s then path s \<noteq> None else True)"

text \<open>
  The values a list of name and value pairs holds for one name, in the order of the
  list.
\<close>

definition values_for :: "string \<Rightarrow> (string \<times> string) list \<Rightarrow> string list" where
  "values_for k pairs = map snd (filter (\<lambda>(name, val). name = k) pairs)"

text \<open>
  A query string that lists fields \<^verbatim>\<open>name=value\<close> separated by \<open>&\<close>; a field is plain when
  its name has none of the characters \<open>&\<close>, \<open>=\<close>, \<open>%\<close> and \<open>+\<close> and its value none of \<open>&\<close>,
  \<open>%\<close> and \<open>+\<close> (so nothing in it is decoded); the fields whose value is not empty.
\<close>

fun join_fields :: "(string \<times> string) list \<Rightarrow> string" where
  "join_fields [] = []"
| "join_fields [(name, val)] = name @ ''='' @ val"
| "join_fields ((name, val) # f # fs) = name @ ''='' @ val @ ''&'' @ join_fields (f # fs)"

definition plain_field :: "string \<times> string \<Rightarrow> bool" where
  "plain_field f =
     (case f of (name, val) \<Rightarrow>
        list_all (\<lambda>c. c \<notin> set ''&=%+'') name \<and> list_all (\<lambda>c. c \<notin> set ''&%+'') val)"

definition nonblank :: "(string \<times> string) list \<Rightarrow> (string \<times> string) list" where
  "nonblank fs = filter (\<lambda>(name, val). val \<noteq> []) fs"

text \<open>The \<^verbatim>\<open>dedupe_id\<close> field of the request sent last.\<close>

definition last_dedupe_id :: "world \<Rightarrow> form_value option" where
  "last_dedupe_id w =
     (case rev (sent w) of
        [] \<Rightarrow> None
      | request # _ \<Rightarrow> map_of (data request) ''dedupe_id'')"

subsection \<open>Collaborators and inputs for evaluating examples\<close>

text \<open>
  A token endpoint that answers every request with status 200 and the body
  \<^verbatim>\<open>{"access_token": "tok_live_1"}\<close>; a client whose state token is \<^verbatim>\<open>abc12XYZ\<close>; a world
  in which nothing has happened yet; a response with a given status.
\<close>

definition example_environment :: "string environment" where
  "example_environment =
     \<lparr>urllib = std_urllib,
      requests = (\<lambda>history request.
         Inr \<lparr>status_code = 200, text_body = ''{\"access_token\": \"tok_live_1\"}'',
              json_body = Inr (JObject [(''access_token'', JString ''tok_live_1'')])\<rparr>),
      Pot_from_json = (\<lambda>j. Inr [])\<rparr>"

definition example_client :: monzo_client where
  "example_client =
     \<lparr>client_id = ''oauth2client_1'', owner_id = ''user_1'', client_secret = ''secret_1'',
      access_token = JNull, account_id = None, state_token = ''abc12XYZ''\<rparr>"

definition empty_world :: world where
  "empty_world = \<lparr>browser = [], sent = []\<rparr>"

definition example_response :: "int \<Rightarrow> http_response" where
  "example_response c = \<lparr>status_code = c, text_body = ''no'', json_body = Inr JNull\<rparr>"

section \<open>Properties of the OAuth helper server\<close>

lemma parse_qs_collect_lookup:
  "parse_qs_collect pairs m k =
     (case m k of
        None \<Rightarrow> (if values_for k pairs = [] then None else Some (values_for k pairs))
      | Some vs \<Rightarrow> Some (vs @ values_for k pairs))"
proof (induction pairs arbitrary: m)
  case Nil
  then show ?case by (simp add: values_for_def split: option.splits)
next
  case (Cons nv pairs)
  obtain name val where nv: "nv = (name, val)" by (cases nv)
  show ?case
    unfolding nv by (simp add: Cons.IH values_for_def split: option.splits)
qed

lemma parse_qs_lookup:
  "parse_qs lib q k =
     (if values_for k (parse_qsl lib q) = [] then None
      else Some (values_for k (parse_qsl lib q)))"
  by (simp add: parse_qs_def parse_qs_collect_lookup)

text \<open>
  The query string written from plain fields is read back as those fields, in their
  order, without the ones whose value is empty.
\<close>

lemma split_on_no_sep: "sep \<notin> set xs \<Longrightarrow> split_on sep xs = [xs]"
  by (induction xs) auto

lemma split_on_append:
  "sep \<notin> set xs \<Longrightarrow> split_on sep (xs @ sep # ys) = xs # split_on sep ys"
  by (induction xs) auto

lemma plain_field_no_amp:
  "plain_field (name, val) \<Longrightarrow> CHR ''&'' \<notin> set (name @ CHR ''='' # val)"
  by (auto simp: plain_field_def list_all_iff)

lemma split_on_join_fields:
  "list_all plain_field fs \<Longrightarrow> fs \<noteq> [] \<Longrightarrow>
     split_on CHR ''&'' (join_fields fs) = map (\<lambda>(name, val). name @ CHR ''='' # val) fs"
proof (induction fs rule: join_fields.induct)
  case 1
  then show ?case by simp
next
  case (2 name val)
  then show ?case
    using split_on_no_sep [OF plain_field_no_amp [of name val]] by simp
next
  case (3 name val f fs)
  have "split_on CHR ''&'' ((name @ CHR ''='' # val) @ CHR ''&'' # join_fields (f # fs))
        = (name @ CHR ''='' # val) # split_on CHR ''&'' (join_fields (f # fs))"
    using 3 by (intro split_on_append plain_field_no_amp) simp
  with 3 show ?case by simp
qed

lemma replace_plus_id: "CHR ''+'' \<notin> set s \<Longrightarrow> replace_plus s = s"
  by (induction s) (auto simp: replace_plus_def)

lemma parse_field:
  assumes "plain_field (name, val)"
  shows "parse_qsl_fields lib ((name @ CHR ''='' # val) # rest)
         = (if val = [] then [] else [(name, val)]) @ parse_qsl_fields lib rest"
proof -
  from assms have n: "CHR ''='' \<notin> set name" "CHR ''+'' \<notin> set name" "CHR ''%'' \<notin> set name"
    and v: "CHR ''+'' \<notin> set val" "CHR ''%'' \<notin> set val"
    by (auto simp: plain_field_def list_all_iff)
  have tw: "takeWhile (\<lambda>c. c \<noteq> CHR ''='') (name @ CHR ''='' # val) = name"
    using n(1) by (subst takeWhile_append2) auto
  have dw: "dropWhile (\<lambda>c. c \<noteq> CHR ''='') (name @ CHR ''='' # val) = CHR ''='' # val"
    using n(1) by (subst dropWhile_append2) auto
  have ne: "name @ CHR ''='' # val \<noteq> []" by simp
  have eq: "CHR ''='' \<in> set (name @ CHR ''='' # val)" by simp
  show ?thesis
    unfolding parse_qsl_fields.simps Let_def tw dw
    using n v ne eq by (simp add: unquote_def replace_plus_id)
qed

lemma parse_qsl_fields_join:
  "list_all plain_field fs \<Longrightarrow>
     parse_qsl_fields lib (map (\<lambda>(name, val). name @ CHR ''='' # val) fs) = nonblank fs"
proof (induction fs)
  case Nil
  then show ?case by (simp add: nonblank_def)
next
  case (Cons f fs)
  obtain name val where f: "f = (name, val)" by (cases f)
  from Cons have p: "plain_field (name, val)" and ps: "list_all plain_field fs"
    by (simp_all add: f)
  show ?case
    unfolding f using Cons.IH [OF ps]
    by (simp add: parse_field [OF p] nonblank_def del: parse_qsl_fields.simps)
qed

lemma parse_qsl_join_fields:
  "list_all plain_field fs \<Longrightarrow> parse_qsl lib (join_fields fs) = nonblank fs"
proof (cases fs)
  case Nil
  then show ?thesis by (simp add: parse_qsl_def nonblank_def)
next
  case (Cons f fs')
  assume p: "list_all plain_field fs"
  obtain name val where f: "f = (name, val)" by (cases f)
  have ne: "join_fields fs \<noteq> []"
    unfolding Cons f by (cases fs') auto
  from p Cons have "split_on CHR ''&'' (join_fields fs)
                    = map (\<lambda>(name, val). name @ CHR ''='' # val) fs"
    by (intro split_on_join_fields) auto
  with ne p show ?thesis
    by (simp add: parse_qsl_def parse_qsl_fields_join)
qed


lemma handle_request_flags:
  "handle_request evs s = Some (evs', s') \<Longrightarrow>
     (completed s \<longrightarrow> completed s') \<and> (cancelled s \<longrightarrow> cancelled s')"
  by (induction evs s rule: handle_request.induct)
     (auto simp: stop_def handler_callback_def)

text \<open>The loop ends only with one of the flags set.\<close>

lemma wait_loop_terminal:
  "wait_loop evs s = Some s' \<Longrightarrow> completed s' \<or> cancelled s'"
proof (induction evs s rule: wait_loop.induct)
  case (1 evs s)
  then show ?case
    by (subst (asm) (2) wait_loop.simps) (auto split: if_splits option.splits)
qed

lemma wait_loop_flags:
  "wait_loop evs s = Some s' \<Longrightarrow>
     (completed s \<longrightarrow> completed s') \<and> (cancelled s \<longrightarrow> cancelled s')"
proof (induction evs s rule: wait_loop.induct)
  case (1 evs s)
  then show ?case
    by (subst (asm) (2) wait_loop.simps)
       (auto split: if_splits option.splits dest: handle_request_flags)
qed

lemma wait_for_call_flags:
  "wait_for_call lib evs late_stop s = Some (r, s') \<Longrightarrow>
     (completed s \<longrightarrow> completed s') \<and> (cancelled s \<longrightarrow> cancelled s')"
  by (auto simp: wait_for_call_def Let_def stop_def split: option.splits if_splits
           dest: wait_loop_flags)

lemma run_flags:
  "run lib ops s = Some s' \<Longrightarrow>
     (completed s \<longrightarrow> completed s') \<and> (cancelled s \<longrightarrow> cancelled s')"
proof (induction lib ops s rule: run.induct)
  case (1 lib s)
  then show ?case by simp
next
  case (2 lib p ops s)
  then show ?case by (simp add: handler_callback_def)
next
  case (3 lib ops s)
  then show ?case by (simp add: stop_def)
next
  case (4 lib evs late_stop ops s)
  then show ?case
    by (auto split: option.splits dest: wait_for_call_flags)
qed

text \<open>
  Whatever is done with a server created by \<^verbatim>\<open>OAuthServer.__init__\<close>, the flag
  \<^verbatim>\<open>_completed\<close> is only ever set together with \<^verbatim>\<open>path\<close>: the code after the loop never
  reads an unassigned attribute.
\<close>

lemma handle_request_path_recorded:
  "handle_request evs s = Some (evs', s') \<Longrightarrow> path_recorded s \<Longrightarrow> path_recorded s'"
  by (induction evs s rule: handle_request.induct)
     (auto simp: stop_def handler_callback_def path_recorded_def split: if_splits)

lemma wait_loop_path_recorded:
  "wait_loop evs s = Some s' \<Longrightarrow> path_recorded s \<Longrightarrow> path_recorded s'"
proof (induction evs s rule: wait_loop.induct)
  case (1 evs s)
  from "1.prems"(1) show ?case
    by (subst (asm) wait_loop.simps)
       (use 1 in \<open>auto split: if_splits option.splits dest: handle_request_path_recorded\<close>)
qed

lemma run_path_recorded:
  "run lib ops s = Some s' \<Longrightarrow> path_recorded s \<Longrightarrow> path_recorded s'"
proof (induction lib ops s rule: run.induct)
  case (4 lib evs late_stop ops s)
  then show ?case
    by (auto simp: wait_for_call_def Let_def stop_def path_recorded_def
             split: option.splits if_splits dest!: wait_loop_path_recorded)
qed (auto simp: handler_callback_def stop_def path_recorded_def split: if_splits)

lemma fresh_server_path_recorded:
  "run lib ops (OAuthServer_init p) = Some s \<Longrightarrow> completed s \<Longrightarrow> \<exists>q. path s = Some q"
  using run_path_recorded [of lib ops "OAuthServer_init p" s]
  by (auto simp: path_recorded_def OAuthServer_init_def)

subsection \<open>The two flags\<close>

text \<open>
  Claim C1 says that at most one of the flags \<^verbatim>\<open>_completed\<close> and \<^verbatim>\<open>_cancelled\<close> ever
  becomes true, and that \<^verbatim>\<open>stop\<close> after completion is a no-op.  The code has no such
  guard: on a fresh server on which a callback has arrived, \<^verbatim>\<open>stop\<close> sets \<^verbatim>\<open>_cancelled\<close>
  as well, so both flags are true and the state has changed.
\<close>

theorem stop_after_completed_counterexample:
  "completed (stop (handler_callback ''/monzo_callback?code=ABC&state=XYZ''
                      (OAuthServer_init 36453)))
   \<and> cancelled (stop (handler_callback ''/monzo_callback?code=ABC&state=XYZ''
                        (OAuthServer_init 36453)))
   \<and> stop (handler_callback ''/monzo_callback?code=ABC&state=XYZ'' (OAuthServer_init 36453))
       \<noteq> handler_callback ''/monzo_callback?code=ABC&state=XYZ'' (OAuthServer_init 36453)"
  by (simp add: stop_def handler_callback_def OAuthServer_init_def)

text \<open>
  Claim C1, as the code has it: over any sequence of \<^verbatim>\<open>handler_callback\<close>,
  \<^verbatim>\<open>wait_for_call\<close> and \<^verbatim>\<open>stop\<close> operations a flag that is true stays true;
  \<^verbatim>\<open>stop\<close> sets \<^verbatim>\<open>_cancelled\<close> and \<^verbatim>\<open>handler_callback\<close> sets \<^verbatim>\<open>_completed\<close> (and the
  path) whatever the state is, and neither touches the other flag.  So \<^verbatim>\<open>stop\<close> after
  completion leaves \<^verbatim>\<open>_completed\<close> true and sets \<^verbatim>\<open>_cancelled\<close> too, and the code after
  the wait loop then returns \<^verbatim>\<open>None\<close>.
\<close>

theorem flags_never_reset:
  assumes "run lib ops s = Some s'"
  shows "(completed s \<longrightarrow> completed s') \<and> (cancelled s \<longrightarrow> cancelled s')
         \<and> stop s' = s'\<lparr>cancelled := True\<rparr>
         \<and> handler_callback p s' = s'\<lparr>completed := True, path := Some p\<rparr>
         \<and> (completed s' \<longrightarrow> completed (stop s') \<and> cancelled (stop s')
               \<and> after_loop lib (stop s') = Inr None)"
  using run_flags [OF assms]
  by (simp add: stop_def handler_callback_def after_loop_def)

theorem flags_never_reset_witness:
  "run std_urllib
     [HandlerCallback ''/monzo_callback?code=ABC&state=XYZ'', WaitForCall [] False, Stop]
     (OAuthServer_init 36453)
   = Some \<lparr>port = 36453, cancelled = True, completed = True, private_path = None,
           path = Some ''/monzo_callback?code=ABC&state=XYZ''\<rparr>
   \<and> completed (stop \<lparr>port = 36453, cancelled = True, completed = True, private_path = None,
           path = Some ''/monzo_callback?code=ABC&state=XYZ''\<rparr>)
   \<and> cancelled (stop \<lparr>port = 36453, cancelled = True, completed = True, private_path = None,
           path = Some ''/monzo_callback?code=ABC&state=XYZ''\<rparr>)
   \<and> after_loop std_urllib
        (stop \<lparr>port = 36453, cancelled = True, completed = True, private_path = None,
           path = Some ''/monzo_callback?code=ABC&state=XYZ''\<rparr>) = Inr None"
proof -
  let ?s = "\<lparr>port = 36453, cancelled = True, completed = True, private_path = None,
             path = Some ''/monzo_callback?code=ABC&state=XYZ''\<rparr>"
  have r: "run std_urllib
             [HandlerCallback ''/monzo_callback?code=ABC&state=XYZ'', WaitForCall [] False, Stop]
             (OAuthServer_init 36453) = Some ?s"
    by (simp add: OAuthServer_init_def handler_callback_def stop_def wait_for_call_def Let_def
        wait_loop.simps)
  have c: "completed ?s" by simp
  from flags_never_reset [OF r, of "''/other''"] c
  have f: "completed (stop ?s) \<and> cancelled (stop ?s)
           \<and> after_loop std_urllib (stop ?s) = Inr None"
    by blast
  show ?thesis by (rule conjI [OF r f])
qed

subsection \<open>A second callback\<close>

text \<open>
  Claim C2 says that a second \<^verbatim>\<open>handler_callback\<close> after completion is discarded and
  the first path is retained.  The code assigns \<^verbatim>\<open>self.path\<close> without looking at the
  state: after a second callback the server holds the second path, and its state
  differs from the one the first callback left.
\<close>

theorem second_callback_counterexample:
  "path (handler_callback ''/monzo_callback?code=SECOND&state=XYZ''
           (handler_callback ''/monzo_callback?code=FIRST&state=XYZ'' (OAuthServer_init 36453)))
     = Some ''/monzo_callback?code=SECOND&state=XYZ''
   \<and> handler_callback ''/monzo_callback?code=SECOND&state=XYZ''
           (handler_callback ''/monzo_callback?code=FIRST&state=XYZ'' (OAuthServer_init 36453))
       \<noteq> handler_callback ''/monzo_callback?code=FIRST&state=XYZ'' (OAuthServer_init 36453)"
  by (simp add: handler_callback_def OAuthServer_init_def)

text \<open>
  Claim C2, as the code has it: a second invocation of \<^verbatim>\<open>handler_callback\<close> overwrites
  the path, so the server is in the state the second invocation alone would have left:
  the path retained is the one of the last invocation, \<^verbatim>\<open>_completed\<close> stays true, and
  \<^verbatim>\<open>_cancelled\<close> and \<^verbatim>\<open>_path\<close> are as they were.
\<close>

theorem second_callback_overwrites:
  "handler_callback p2 (handler_callback p1 s) = handler_callback p2 s
   \<and> path (handler_callback p2 (handler_callback p1 s)) = Some p2
   \<and> completed (handler_callback p2 (handler_callback p1 s))
   \<and> cancelled (handler_callback p2 (handler_callback p1 s)) = cancelled s
   \<and> private_path (handler_callback p2 (handler_callback p1 s)) = private_path s"
  by (simp add: handler_callback_def)

subsection \<open>What wait_for_call returns\<close>

lemma parse_qs_join_fields:
  "list_all plain_field fs \<Longrightarrow>
     parse_qs lib (join_fields fs) k
       = (if values_for k (nonblank fs) = [] then None else Some (values_for k (nonblank fs)))"
  by (simp add: parse_qs_lookup parse_qsl_join_fields)



lemmas std_urllib_eval =
  std_urllib_def urlsplit_query_def after_scheme_def query_part_def scheme_chars_def Let_def

text \<open>
  Claim C4 says that the code after the wait loop has exactly one of three outcomes.
  There is a fourth: on a completed server that is not cancelled the captured path goes
  to \<^verbatim>\<open>urlparse\<close>, and an exception of \<^verbatim>\<open>urlparse\<close> leaves \<^verbatim>\<open>wait_for_call\<close> as it is.  For
  the request target \<^verbatim>\<open>http://[x/monzo_callback?code=ABC&state=XYZ\<close>, whose network location
  has an opening bracket without the closing one, the call ends in
  \<^verbatim>\<open>ValueError("Invalid IPv6 URL")\<close>: it returns neither \<^verbatim>\<open>None\<close> nor a parameter map, and
  the exception is not the one of the branch for no flag set.
\<close>

theorem invalid_url_counterexample:
  "wait_for_call std_urllib [Request ''http://[x/monzo_callback?code=ABC&state=XYZ''] False
     (OAuthServer_init 36453)
   = Some (Inl (ValueError ''Invalid IPv6 URL''),
           handler_callback ''http://[x/monzo_callback?code=ABC&state=XYZ''
             (OAuthServer_init 36453))
   \<and> completed (handler_callback ''http://[x/monzo_callback?code=ABC&state=XYZ''
                   (OAuthServer_init 36453))
   \<and> \<not> cancelled (handler_callback ''http://[x/monzo_callback?code=ABC&state=XYZ''
                      (OAuthServer_init 36453))"
  by (simp add: wait_for_call_def wait_loop.simps OAuthServer_init_def handler_callback_def
      after_loop_def std_urllib_eval)

text \<open>
  Claim C4, as the code has it.  The wait loop ends only with one of the flags set, and
  \<^verbatim>\<open>wait_for_call\<close> then returns the outcome of the code after the loop on the state it
  finds under the lock (the state the loop ended in, or that state after a \<^verbatim>\<open>stop()\<close> of
  another thread).  On a server whose path is recorded whenever it is completed, which
  a new server is, a completed state at the end of the loop has a captured path.  The
  outcome is one of four.  If \<^verbatim>\<open>_cancelled\<close> is set the call returns \<^verbatim>\<open>None\<close>.  Otherwise,
  if \<^verbatim>\<open>_completed\<close> is set, the captured path \<open>p\<close> goes to \<^verbatim>\<open>urlparse\<close>: if that raises, the
  exception propagates; if it yields the query string \<open>q\<close>, the call returns \<open>q\<close> parsed
  into a parameter map, which for a query string written from plain fields sends each
  name to its values that are not empty, in their order, and has no other keys.  If
  neither flag is set the code raises
  \<^verbatim>\<open>Exception("Call should be cancelled or completed by this point")\<close>.
\<close>

theorem wait_for_call_outcomes:
  "(wait_loop evs s0 = Some s1 \<longrightarrow>
      (completed s1 \<or> cancelled s1)
      \<and> wait_for_call lib evs late_stop s0
          = Some (after_loop lib (if late_stop then stop s1 else s1),
                  if late_stop then stop s1 else s1))
   \<and> (path_recorded s0 \<and> wait_loop evs s0 = Some s1 \<and> completed s1
        \<longrightarrow> (\<exists>p. path s1 = Some p))
   \<and> (cancelled s \<longrightarrow> after_loop lib s = Inr None)
   \<and> (\<not> cancelled s \<and> completed s \<and> path s = Some p \<and> urlparse_query lib p = Inl e
        \<longrightarrow> after_loop lib s = Inl e)
   \<and> (\<not> cancelled s \<and> completed s \<and> path s = Some p \<and> urlparse_query lib p = Inr q
        \<longrightarrow> after_loop lib s = Inr (Some (parse_qs lib q))
            \<and> (q = join_fields fs \<and> list_all plain_field fs
                 \<longrightarrow> (\<forall>k. parse_qs lib q k
                            = (if values_for k (nonblank fs) = [] then None
                               else Some (values_for k (nonblank fs))))))
   \<and> (\<not> cancelled s \<and> \<not> completed s
        \<longrightarrow> after_loop lib s
              = Inl (PyException ''Call should be cancelled or completed by this point''))"
proof -
  have 1: "wait_loop evs s0 = Some s1 \<longrightarrow>
      (completed s1 \<or> cancelled s1)
      \<and> wait_for_call lib evs late_stop s0
          = Some (after_loop lib (if late_stop then stop s1 else s1),
                  if late_stop then stop s1 else s1)"
    by (auto simp: wait_for_call_def Let_def dest: wait_loop_terminal)
  have 2: "path_recorded s0 \<and> wait_loop evs s0 = Some s1 \<and> completed s1
        \<longrightarrow> (\<exists>p. path s1 = Some p)"
    using wait_loop_path_recorded [of evs s0 s1] by (auto simp: path_recorded_def)
  have 3: "q = join_fields fs \<and> list_all plain_field fs
                 \<longrightarrow> (\<forall>k. parse_qs lib q k
                            = (if values_for k (nonblank fs) = [] then None
                               else Some (values_for k (nonblank fs))))"
    by (auto simp: parse_qs_join_fields)
  from 1 2 3 show ?thesis
    by (simp add: after_loop_def)
qed

theorem wait_for_call_outcomes_witness:
  "wait_for_call std_urllib [Timeout, StopCalled, Timeout] False (OAuthServer_init 36453)
     = Some (Inr None, stop (OAuthServer_init 36453))
   \<and> (\<exists>p. path (handler_callback ''/monzo_callback?code=ABC&state=XYZ'' (OAuthServer_init 36453))
            = Some p)
   \<and> after_loop std_urllib (stop (OAuthServer_init 36453)) = Inr None
   \<and> after_loop std_urllib
        (handler_callback ''http://[x/monzo_callback?code=ABC&state=XYZ'' (OAuthServer_init 36453))
       = Inl (ValueError ''Invalid IPv6 URL'')
   \<and> after_loop std_urllib
        (handler_callback ''/monzo_callback?code=ABC&state=XYZ'' (OAuthServer_init 36453))
       = Inr (Some (parse_qs std_urllib ''code=ABC&state=XYZ''))
   \<and> parse_qs std_urllib ''code=ABC&state=XYZ'' ''code'' = Some [''ABC'']
   \<and> parse_qs std_urllib ''code=ABC&state=XYZ'' ''state'' = Some [''XYZ'']
   \<and> parse_qs std_urllib ''code=ABC&state=XYZ'' ''other'' = None
   \<and> after_loop std_urllib (OAuthServer_init 36453)
       = Inl (PyException ''Call should be cancelled or completed by this point'')"
proof -
  let ?init = "OAuthServer_init 36453"
  let ?p = "''/monzo_callback?code=ABC&state=XYZ''"
  let ?bad = "''http://[x/monzo_callback?code=ABC&state=XYZ''"
  let ?q = "''code=ABC&state=XYZ''"
  let ?fs = "[(''code'', ''ABC''), (''state'', ''XYZ'')]"
  have loop: "wait_loop [Timeout, StopCalled, Timeout] ?init = Some (stop ?init)"
    by (simp add: wait_loop.simps OAuthServer_init_def stop_def)
  have loop2: "path_recorded ?init \<and> wait_loop [Request ?p] ?init = Some (handler_callback ?p ?init)
               \<and> completed (handler_callback ?p ?init)"
    by (simp add: wait_loop.simps OAuthServer_init_def handler_callback_def path_recorded_def)
  have a: "cancelled (stop ?init)"
    by (simp add: stop_def)
  have bad: "\<not> cancelled (handler_callback ?bad ?init) \<and> completed (handler_callback ?bad ?init)
             \<and> path (handler_callback ?bad ?init) = Some ?bad
             \<and> urlparse_query std_urllib ?bad = Inl (ValueError ''Invalid IPv6 URL'')"
    by (simp add: handler_callback_def OAuthServer_init_def std_urllib_eval)
  have good: "\<not> cancelled (handler_callback ?p ?init) \<and> completed (handler_callback ?p ?init)
              \<and> path (handler_callback ?p ?init) = Some ?p
              \<and> urlparse_query std_urllib ?p = Inr ?q"
    by (simp add: handler_callback_def OAuthServer_init_def std_urllib_eval)
  have fs: "?q = join_fields ?fs \<and> list_all plain_field ?fs"
    by (simp add: plain_field_def)
  have c: "\<not> cancelled ?init \<and> \<not> completed ?init"
    by (simp add: OAuthServer_init_def)
  from wait_for_call_outcomes [of "[Timeout, StopCalled, Timeout]" ?init "stop ?init" std_urllib False] loop
  have 1: "wait_for_call std_urllib [Timeout, StopCalled, Timeout] False ?init
           = Some (after_loop std_urllib (stop ?init), stop ?init)"
    by simp
  from wait_for_call_outcomes [of "[Request ?p]" ?init "handler_callback ?p ?init"] loop2
  have 2: "\<exists>p. path (handler_callback ?p ?init) = Some p"
    by blast
  from wait_for_call_outcomes [of _ _ _ std_urllib _ "stop ?init"] a
  have 3: "after_loop std_urllib (stop ?init) = Inr None"
    by blast
  from wait_for_call_outcomes [of _ _ _ std_urllib _ "handler_callback ?bad ?init" ?bad "ValueError ''Invalid IPv6 URL''"]
    bad
  have 4: "after_loop std_urllib (handler_callback ?bad ?init)
           = Inl (ValueError ''Invalid IPv6 URL'')"
    by blast
  from wait_for_call_outcomes [of _ _ _ std_urllib _ "handler_callback ?p ?init" ?p _ ?q ?fs] good fs
  have 5: "after_loop std_urllib (handler_callback ?p ?init) = Inr (Some (parse_qs std_urllib ?q))
           \<and> (\<forall>k. parse_qs std_urllib ?q k
                  = (if values_for k (nonblank ?fs) = [] then None
                     else Some (values_for k (nonblank ?fs))))"
    by blast
  then have 6: "parse_qs std_urllib ?q ''code'' = Some [''ABC'']
                \<and> parse_qs std_urllib ?q ''state'' = Some [''XYZ'']
                \<and> parse_qs std_urllib ?q ''other'' = None"
    by (simp add: values_for_def nonblank_def)
  from wait_for_call_outcomes [of _ _ _ std_urllib _ ?init] c
  have 7: "after_loop std_urllib ?init
           = Inl (PyException ''Call should be cancelled or completed by this point'')"
    by blast
  from 1 2 3 4 5 6 7 show ?thesis by simp
qed




section \<open>Properties of the random strings\<close>

lemma length_SECRETS_ALPHABET: "length SECRETS_ALPHABET = 56"
  by (simp add: SECRETS_ALPHABET_def)

lemma secrets_choice_in_alphabet: "secrets_choice r SECRETS_ALPHABET \<in> set SECRETS_ALPHABET"
  unfolding secrets_choice_def
  by (rule nth_mem) (simp add: length_SECRETS_ALPHABET)

lemma random_string_length: "length (fst (random_string n rnd)) = nat n"
  by (simp add: random_string_def)

lemma random_string_chars: "set (fst (random_string n rnd)) \<subseteq> set SECRETS_ALPHABET"
  by (auto simp: random_string_def secrets_choice_in_alphabet)

text \<open>
  Claim C6 says that no character of a state token is one of \<open>0\<close>, \<open>1\<close>, \<open>I\<close>, \<open>O\<close> and \<open>l\<close>.
  The alphabet of the code contains the capital letter \<open>I\<close>: when the draws of the
  entropy source are 8, 15, 22 and so on, the state token of a new client is
  \<^verbatim>\<open>IQXenv4BIQXenv4BIQXe\<close>, in which \<open>I\<close> occurs.
\<close>

theorem state_token_counterexample:
  "state_token
     (fst (MonzoClient_init ''oauth2client_1'' ''user_1'' ''secret_1'' (\<lambda>i. 7 * i + 8)))
     = ''IQXenv4BIQXenv4BIQXe''
   \<and> CHR ''I'' \<in> set (state_token
         (fst (MonzoClient_init ''oauth2client_1'' ''user_1'' ''secret_1'' (\<lambda>i. 7 * i + 8))))"
  by (simp add: MonzoClient_init_def random_string_def secrets_choice_def SECRETS_ALPHABET_def
      upt_rec)

text \<open>
  Claim C6, as the code has it: the state token of every client is exactly 20 characters
  long, and each of its characters is drawn from the alphabet of 56 letters and digits
  \<^verbatim>\<open>ABCDEFGHIJKLMNPQRSTUVWXYZabcdefghjkmnpqrstuvwxyz23456789\<close>, which leaves out \<open>0\<close>,
  \<open>1\<close>, \<open>O\<close>, \<open>l\<close>, \<open>i\<close> and \<open>o\<close>, and contains \<open>I\<close>.
\<close>

theorem state_token_alphabet:
  "length (state_token (fst (MonzoClient_init cid oid secret rnd))) = 20
   \<and> set (state_token (fst (MonzoClient_init cid oid secret rnd))) \<subseteq> set SECRETS_ALPHABET
   \<and> set SECRETS_ALPHABET
       = set ''ABCDEFGHIJKLMNPQRSTUVWXYZabcdefghjkmnpqrstuvwxyz23456789''
   \<and> set SECRETS_ALPHABET \<inter> set ''01Olio'' = {}
   \<and> CHR ''I'' \<in> set SECRETS_ALPHABET"
proof -
  have tok: "state_token (fst (MonzoClient_init cid oid secret rnd)) = fst (random_string 20 rnd)"
    by (simp add: MonzoClient_init_def split: prod.splits)
  have "length (fst (random_string 20 rnd)) = 20"
    by (simp add: random_string_length)
  moreover have "set SECRETS_ALPHABET \<inter> set ''01Olio'' = {}"
    by (simp add: SECRETS_ALPHABET_def)
  moreover have "CHR ''I'' \<in> set SECRETS_ALPHABET"
    by (simp add: SECRETS_ALPHABET_def)
  ultimately show ?thesis
    using random_string_chars [of 20 rnd] by (simp add: tok SECRETS_ALPHABET_def)
qed

section \<open>Properties of the client\<close>

subsection \<open>Statuses and exceptions\<close>

lemma map_of_error_map:
  "map_of error_map c =
     (if c = 400 then Some MonzoBadRequestError
      else if c = 401 then Some MonzoUnauthorizedError
      else if c = 403 then Some MonzoForbiddenError
      else if c = 404 then Some MonzoNotFoundError
      else if c = 405 then Some MonzoMethodNotAllowedError
      else if c = 406 then Some MonzoNotAcceptableError
      else if c = 429 then Some MonzoTooManyRequestsError
      else if c = 500 then Some MonzoInternalServerError
      else if c = 504 then Some MonzoGatewayTimeoutError
      else None)"
  by (simp add: error_map_def)

text \<open>
  Claim C8: \<^verbatim>\<open>_handle_response\<close> raises an exception if and only if the status code is
  outside the range from 200 (included) to 300 (excluded).  Each of the statuses 400,
  401, 403, 404, 405, 406, 429, 500 and 504 raises its own error class, every other
  status outside the range raises \<^verbatim>\<open>MonzoAPIError\<close>, and for a status inside the range the
  response is returned unchanged.
\<close>

theorem handle_response_raises:
  "((\<exists>e. handle_response response = Inl e)
      \<longleftrightarrow> (status_code response < 200 \<or> 300 \<le> status_code response))
   \<and> (status_code response = 400
        \<longrightarrow> handle_response response = Inl (MonzoBadRequestError (error_message response)))
   \<and> (status_code response = 401
        \<longrightarrow> handle_response response = Inl (MonzoUnauthorizedError (error_message response)))
   \<and> (status_code response = 403
        \<longrightarrow> handle_response response = Inl (MonzoForbiddenError (error_message response)))
   \<and> (status_code response = 404
        \<longrightarrow> handle_response response = Inl (MonzoNotFoundError (error_message response)))
   \<and> (status_code response = 405
        \<longrightarrow> handle_response response
              = Inl (MonzoMethodNotAllowedError (error_message response)))
   \<and> (status_code response = 406
        \<longrightarrow> handle_response response = Inl (MonzoNotAcceptableError (error_message response)))
   \<and> (status_code response = 429
        \<longrightarrow> handle_response response
              = Inl (MonzoTooManyRequestsError (error_message response)))
   \<and> (status_code response = 500
        \<longrightarrow> handle_response response
              = Inl (MonzoInternalServerError (error_message response)))
   \<and> (status_code response = 504
        \<longrightarrow> handle_response response
              = Inl (MonzoGatewayTimeoutError (error_message response)))
   \<and> ((status_code response < 200 \<or> 300 \<le> status_code response)
        \<and> status_code response \<notin> {400, 401, 403, 404, 405, 406, 429, 500, 504}
        \<longrightarrow> handle_response response = Inl (MonzoAPIError (error_message response)))
   \<and> (200 \<le> status_code response \<and> status_code response < 300
        \<longrightarrow> handle_response response = Inr response)"
  by (auto simp: handle_response_def map_of_error_map)

theorem handle_response_raises_witness:
  "handle_response (example_response 400)
     = Inl (MonzoBadRequestError ''Error fetching request: (400): no'')
   \<and> handle_response (example_response 401)
     = Inl (MonzoUnauthorizedError ''Error fetching request: (401): no'')
   \<and> handle_response (example_response 403)
     = Inl (MonzoForbiddenError ''Error fetching request: (403): no'')
   \<and> handle_response (example_response 404)
     = Inl (MonzoNotFoundError ''Error fetching request: (404): no'')
   \<and> handle_response (example_response 405)
     = Inl (MonzoMethodNotAllowedError ''Error fetching request: (405): no'')
   \<and> handle_response (example_response 406)
     = Inl (MonzoNotAcceptableError ''Error fetching request: (406): no'')
   \<and> handle_response (example_response 429)
     = Inl (MonzoTooManyRequestsError ''Error fetching request: (429): no'')
   \<and> handle_response (example_response 500)
     = Inl (MonzoInternalServerError ''Error fetching request: (500): no'')
   \<and> handle_response (example_response 504)
     = Inl (MonzoGatewayTimeoutError ''Error fetching request: (504): no'')
   \<and> handle_response (example_response 302)
     = Inl (MonzoAPIError ''Error fetching request: (302): no'')
   \<and> handle_response (example_response 204) = Inr (example_response 204)"
proof -
  have sc: "status_code (example_response c) = c" for c
    by (simp add: example_response_def)
  have msg: "error_message (example_response 400) = ''Error fetching request: (400): no''"
    "error_message (example_response 401) = ''Error fetching request: (401): no''"
    "error_message (example_response 403) = ''Error fetching request: (403): no''"
    "error_message (example_response 404) = ''Error fetching request: (404): no''"
    "error_message (example_response 405) = ''Error fetching request: (405): no''"
    "error_message (example_response 406) = ''Error fetching request: (406): no''"
    "error_message (example_response 429) = ''Error fetching request: (429): no''"
    "error_message (example_response 500) = ''Error fetching request: (500): no''"
    "error_message (example_response 504) = ''Error fetching request: (504): no''"
    "error_message (example_response 302) = ''Error fetching request: (302): no''"
    by (simp_all add: error_message_def example_response_def str_int_def str_nat.simps)
  show ?thesis
    using handle_response_raises [of "example_response 400"]
      handle_response_raises [of "example_response 401"]
      handle_response_raises [of "example_response 403"]
      handle_response_raises [of "example_response 404"]
      handle_response_raises [of "example_response 405"]
      handle_response_raises [of "example_response 406"]
      handle_response_raises [of "example_response 429"]
      handle_response_raises [of "example_response 500"]
      handle_response_raises [of "example_response 504"]
      handle_response_raises [of "example_response 302"]
      handle_response_raises [of "example_response 204"]
    by (simp add: sc msg)
qed

subsection \<open>authenticate\<close>

lemma example_wait:
  "wait_for_call (urllib example_environment) [Request p] False (OAuthServer_init REDIRECT_PORT)
   = Some (after_loop std_urllib (handler_callback p (OAuthServer_init REDIRECT_PORT)),
           handler_callback p (OAuthServer_init REDIRECT_PORT))"
  by (simp add: example_environment_def wait_for_call_def wait_loop.simps OAuthServer_init_def
      handler_callback_def Let_def)

lemmas example_eval =
  after_loop_def handler_callback_def OAuthServer_init_def std_urllib_def urlsplit_query_def after_scheme_def query_part_def
  parse_qs_def parse_qsl_def unquote_def replace_plus_def Let_def

text \<open>
  Claim C3: \<^verbatim>\<open>authenticate\<close> extracts exactly one \<^verbatim>\<open>code\<close> value from the callback
  parameters and sends that single string as the \<^verbatim>\<open>code\<close> field of the token request.
  The code does not do so.  It checks that \<^verbatim>\<open>state\<close> has exactly one value and takes
  \<^verbatim>\<open>parameters["state"][0]\<close>, but hands \<^verbatim>\<open>parameters["code"]\<close>, the list, to \<^verbatim>\<open>requests.post\<close>
  without a check of its length.  With the client whose state token is \<^verbatim>\<open>abc12XYZ\<close> and
  the callback \<^verbatim>\<open>/monzo_callback?code=AUTHCODE1&code=AUTHCODE2&state=abc12XYZ\<close> the call
  succeeds, and the \<^verbatim>\<open>code\<close> field of the token request it has sent holds both values.
\<close>

theorem two_codes_both_sent:
  "authenticate example_environment
     [Request ''/monzo_callback?code=AUTHCODE1&code=AUTHCODE2&state=abc12XYZ''] False
     example_client empty_world
   = Some (Inr True, example_client\<lparr>access_token := JString ''tok_live_1''\<rparr>,
           \<lparr>browser = [authorization_url example_client],
            sent = [token_request example_client [''AUTHCODE1'', ''AUTHCODE2'']]\<rparr>)
   \<and> map_of (data (token_request example_client [''AUTHCODE1'', ''AUTHCODE2''])) ''code''
       = Some (FormList [''AUTHCODE1'', ''AUTHCODE2''])"
  by (simp add: authenticate_def authenticate_parameters_def exchange_def
        wait_for_call_def wait_loop.simps OAuthServer_init_def handler_callback_def
        after_loop_def std_urllib_eval parse_qs_def parse_qsl_def unquote_def replace_plus_def
        example_environment_def example_client_def empty_world_def token_request_def)

text \<open>
  Claim C5: for a callback whose parameters contain a \<^verbatim>\<open>code\<close> key, if the \<^verbatim>\<open>state\<close>
  parameter is absent, has a number of values other than one, or has one value that
  differs from the client's state token (that is, unless its values are exactly the
  state token alone), \<^verbatim>\<open>authenticate\<close> fails with an exception (a \<^verbatim>\<open>KeyError\<close> for an
  absent state, \<^verbatim>\<open>"Invalid return state"\<close> or \<^verbatim>\<open>"State did not match"\<close> otherwise);
  no request is sent, and the client, its access token included, is unchanged.
\<close>

theorem state_mismatch_fails:
  assumes "wait_for_call (urllib env) evs late_stop (OAuthServer_init REDIRECT_PORT)
             = Some (Inr (Some ps), srv)"
    and "ps ''code'' = Some codes"
    and "ps ''state'' \<noteq> Some [state_token self]"
  shows "\<exists>e w'. authenticate env evs late_stop self w = Some (Inl e, self, w')
           \<and> sent w' = sent w
           \<and> e = (case ps ''state'' of
                     None \<Rightarrow> KeyError ''state''
                   | Some vs \<Rightarrow>
                       if length vs \<noteq> 1 then PyException ''Invalid return state''
                       else PyException ''State did not match'')"
proof (cases "ps ''state''")
  case None
  with assms(1,2) show ?thesis
    by (simp add: authenticate_def authenticate_parameters_def Let_def)
next
  case (Some vs)
  show ?thesis
  proof (cases "length vs = 1")
    case True
    then obtain v where vs: "vs = [v]"
      by (cases vs) auto
    with Some assms(3) have "state_token self \<noteq> v" by auto
    with assms(1,2) Some vs show ?thesis
      by (simp add: authenticate_def authenticate_parameters_def Let_def)
  next
    case False
    with assms(1,2) Some show ?thesis
      by (simp add: authenticate_def authenticate_parameters_def Let_def)
  qed
qed

theorem state_mismatch_fails_witness:
  "(\<exists>w'. authenticate example_environment [Request ''/monzo_callback?code=AUTHCODE1'']
            False example_client empty_world
          = Some (Inl (KeyError ''state''), example_client, w') \<and> sent w' = [])
   \<and> (\<exists>w'. authenticate example_environment
            [Request ''/monzo_callback?code=AUTHCODE1&state=abc12XYZ&state=abc12XYZ'']
            False example_client empty_world
          = Some (Inl (PyException ''Invalid return state''), example_client, w')
          \<and> sent w' = [])
   \<and> (\<exists>w'. authenticate example_environment
            [Request ''/monzo_callback?code=AUTHCODE1&state=abc12XYy'']
            False example_client empty_world
          = Some (Inl (PyException ''State did not match''), example_client, w')
          \<and> sent w' = [])"
proof -
  let ?p1 = "''/monzo_callback?code=AUTHCODE1''"
  let ?p2 = "''/monzo_callback?code=AUTHCODE1&state=abc12XYZ&state=abc12XYZ''"
  let ?p3 = "''/monzo_callback?code=AUTHCODE1&state=abc12XYy''"
  let ?m1 = "parse_qs std_urllib ''code=AUTHCODE1''"
  let ?m2 = "parse_qs std_urllib ''code=AUTHCODE1&state=abc12XYZ&state=abc12XYZ''"
  let ?m3 = "parse_qs std_urllib ''code=AUTHCODE1&state=abc12XYy''"
  have w1: "wait_for_call (urllib example_environment) [Request ?p1] False
              (OAuthServer_init REDIRECT_PORT)
            = Some (Inr (Some ?m1), handler_callback ?p1 (OAuthServer_init REDIRECT_PORT))"
    by (simp add: example_wait) (simp add: example_eval)
  have w2: "wait_for_call (urllib example_environment) [Request ?p2] False
              (OAuthServer_init REDIRECT_PORT)
            = Some (Inr (Some ?m2), handler_callback ?p2 (OAuthServer_init REDIRECT_PORT))"
    by (simp add: example_wait) (simp add: example_eval)
  have w3: "wait_for_call (urllib example_environment) [Request ?p3] False
              (OAuthServer_init REDIRECT_PORT)
            = Some (Inr (Some ?m3), handler_callback ?p3 (OAuthServer_init REDIRECT_PORT))"
    by (simp add: example_wait) (simp add: example_eval)
  have c: "?m1 ''code'' = Some [''AUTHCODE1'']" "?m2 ''code'' = Some [''AUTHCODE1'']"
    "?m3 ''code'' = Some [''AUTHCODE1'']"
    by (simp_all add: example_eval)
  have s: "?m1 ''state'' = None" "?m2 ''state'' = Some [''abc12XYZ'', ''abc12XYZ'']"
    "?m3 ''state'' = Some [''abc12XYy'']"
    by (simp_all add: example_eval)
  have t: "state_token example_client = ''abc12XYZ''"
    by (simp add: example_client_def)
  have n: "?m1 ''state'' \<noteq> Some [state_token example_client]"
    "?m2 ''state'' \<noteq> Some [state_token example_client]"
    "?m3 ''state'' \<noteq> Some [state_token example_client]"
    by (simp_all add: s t)
  from state_mismatch_fails [OF w1 c(1) n(1), of empty_world]
    state_mismatch_fails [OF w2 c(2) n(2), of empty_world]
    state_mismatch_fails [OF w3 c(3) n(3), of empty_world]
  show ?thesis
    by (simp add: s empty_world_def)
qed

text \<open>
  Claim C10: if the callback parameters contain no \<^verbatim>\<open>code\<close> key, \<^verbatim>\<open>authenticate\<close> fails
  with the \<^verbatim>\<open>KeyError\<close> of that lookup, whatever the \<^verbatim>\<open>state\<close> parameter is: the lookup
  comes before any check of the state, so an absent or wrong state is not reported.
  No request is sent and the client is unchanged.
\<close>

theorem missing_code_fails_first:
  assumes "wait_for_call (urllib env) evs late_stop (OAuthServer_init REDIRECT_PORT)
             = Some (Inr (Some ps), srv)"
    and "ps ''code'' = None"
  shows "\<exists>w'. authenticate env evs late_stop self w = Some (Inl (KeyError ''code''), self, w')
           \<and> sent w' = sent w"
  using assms by (simp add: authenticate_def authenticate_parameters_def Let_def)

theorem missing_code_fails_first_witness:
  "\<exists>w'. authenticate example_environment [Request ''/monzo_callback?state=abc12XYy'']
           False example_client empty_world
         = Some (Inl (KeyError ''code''), example_client, w') \<and> sent w' = []"
proof -
  let ?p = "''/monzo_callback?state=abc12XYy''"
  let ?m = "parse_qs std_urllib ''state=abc12XYy''"
  have w: "wait_for_call (urllib example_environment) [Request ?p] False
             (OAuthServer_init REDIRECT_PORT)
           = Some (Inr (Some ?m), handler_callback ?p (OAuthServer_init REDIRECT_PORT))"
    by (simp add: example_wait) (simp add: example_eval)
  have c: "?m ''code'' = None"
    by (simp add: example_eval)
  from missing_code_fails_first [OF w c, of example_client empty_world]
  show ?thesis by (simp add: empty_world_def)
qed

subsection \<open>The default dedupe_id\<close>

lemma sent_put:
  "put env self p body w = (r, w') \<Longrightarrow>
     sent w' = sent w @ [\<lparr>http_method = ''PUT'', url = ''https://api.monzo.com/'' @ p,
                          bearer = Some (access_token self), data = body\<rparr>]"
  by (auto simp: put_def Let_def split: sum.splits)

lemma last_dedupe_id_deposit:
  "last_dedupe_id (snd (deposit_into_pot env cls self pot src amount dedupe w))
     = Some (FormStr (case dedupe of None \<Rightarrow> deposit_dedupe_default cls | Some d \<Rightarrow> d))"
proof -
  let ?body = "[(''source_account_id'', FormStr src), (''amount'', FormInt amount),
                (''dedupe_id'',
                 FormStr (case dedupe of None \<Rightarrow> deposit_dedupe_default cls | Some d \<Rightarrow> d))]"
  obtain r w' where p: "put env self (''pots/'' @ pot @ ''/deposit'') ?body w = (r, w')"
    by (cases "put env self (''pots/'' @ pot @ ''/deposit'') ?body w")
  have w': "snd (deposit_into_pot env cls self pot src amount dedupe w) = w'"
    unfolding deposit_into_pot_def Let_def p by (simp split: sum.splits)
  from sent_put [OF p] show ?thesis
    by (simp add: w' last_dedupe_id_def)
qed

lemma last_dedupe_id_withdraw:
  "last_dedupe_id (snd (withdraw_from_pot env cls self pot dst amount dedupe w))
     = Some (FormStr (case dedupe of None \<Rightarrow> withdraw_dedupe_default cls | Some d \<Rightarrow> d))"
proof -
  let ?body = "[(''destination_account_id'', FormStr dst), (''amount'', FormInt amount),
                (''dedupe_id'',
                 FormStr (case dedupe of None \<Rightarrow> withdraw_dedupe_default cls | Some d \<Rightarrow> d))]"
  obtain r w' where p: "put env self (''pots/'' @ pot @ ''/withdraw'') ?body w = (r, w')"
    by (cases "put env self (''pots/'' @ pot @ ''/withdraw'') ?body w")
  have w': "snd (withdraw_from_pot env cls self pot dst amount dedupe w) = w'"
    unfolding withdraw_from_pot_def Let_def p by (simp split: sum.splits)
  from sent_put [OF p] show ?thesis
    by (simp add: w' last_dedupe_id_def)
qed

text \<open>
  Claim C7: the default \<^verbatim>\<open>dedupe_id\<close> of \<^verbatim>\<open>deposit_into_pot\<close> and that of
  \<^verbatim>\<open>withdraw_from_pot\<close> are each one random string of 20 characters drawn when the class
  is defined.  A call that leaves \<^verbatim>\<open>dedupe_id\<close> out sends that string, so any two such
  calls of the same method send the same \<^verbatim>\<open>dedupe_id\<close>, whatever the client, the other
  arguments, the collaborators and the world are; a call sends another value only when
  the caller supplies one, and then it sends the caller's.
\<close>

theorem default_dedupe_id_shared:
  "define_MonzoClient rnd
     = (\<lparr>deposit_dedupe_default = fst (random_string 20 rnd),
         withdraw_dedupe_default = fst (random_string 20 (snd (random_string 20 rnd)))\<rparr>,
        snd (random_string 20 (snd (random_string 20 rnd))))
   \<and> last_dedupe_id (snd (deposit_into_pot env cls self pot acc amount None w))
       = Some (FormStr (deposit_dedupe_default cls))
   \<and> last_dedupe_id (snd (deposit_into_pot env cls self pot acc amount None w))
       = last_dedupe_id (snd (deposit_into_pot env' cls self' pot' acc' amount' None w'))
   \<and> last_dedupe_id (snd (deposit_into_pot env cls self pot acc amount (Some d) w))
       = Some (FormStr d)
   \<and> last_dedupe_id (snd (withdraw_from_pot env cls self pot acc amount None w))
       = Some (FormStr (withdraw_dedupe_default cls))
   \<and> last_dedupe_id (snd (withdraw_from_pot env cls self pot acc amount None w))
       = last_dedupe_id (snd (withdraw_from_pot env' cls self' pot' acc' amount' None w'))
   \<and> last_dedupe_id (snd (withdraw_from_pot env cls self pot acc amount (Some d) w))
       = Some (FormStr d)"
  by (simp add: last_dedupe_id_deposit last_dedupe_id_withdraw define_MonzoClient_def
      split: prod.splits)

end
